theory Spec2Isabelle
  imports Complex_Main
begin

section \<open>JavaScript numbers\<close>

text \<open>
  The program computes with JavaScript numbers.  They are modelled as the real numbers
  extended by the three special values that the source can produce and test for:
  \<open>Infinity\<close>, \<open>-Infinity\<close> and \<open>NaN\<close>.  Arithmetic on finite values is exact (rounding,
  overflow to infinity and the sign of zero are outside the model); the special values
  follow ECMAScript: \<open>NaN\<close> is absorbing, every comparison with \<open>NaN\<close> is false,
  \<open>0/0\<close>, \<open>Infinity - Infinity\<close>, \<open>0 * Infinity\<close>, the square root and the logarithm of a
  negative number are \<open>NaN\<close>, and \<open>Math.log10(0)\<close> is \<open>-Infinity\<close>.
\<close>

datatype jsnum = Fin real | PInf | NInf | NaN

instantiation jsnum :: "{plus, minus, uminus, times, divide, ord}"
begin

fun plus_jsnum :: "jsnum \<Rightarrow> jsnum \<Rightarrow> jsnum" where
  "Fin a + Fin b = Fin (a + b)"
| "NaN + _ = NaN"
| "_ + NaN = NaN"
| "PInf + NInf = NaN"
| "NInf + PInf = NaN"
| "PInf + _ = PInf"
| "_ + PInf = PInf"
| "NInf + _ = NInf"
| "_ + NInf = NInf"

fun uminus_jsnum :: "jsnum \<Rightarrow> jsnum" where
  "- Fin a = Fin (- a)"
| "- PInf = NInf"
| "- NInf = PInf"
| "- NaN = NaN"

definition minus_jsnum :: "jsnum \<Rightarrow> jsnum \<Rightarrow> jsnum" where
  "a - b = a + (- b)" for a b :: jsnum

fun times_jsnum :: "jsnum \<Rightarrow> jsnum \<Rightarrow> jsnum" where
  "Fin a * Fin b = Fin (a * b)"
| "NaN * _ = NaN"
| "_ * NaN = NaN"
| "PInf * Fin b = (if 0 < b then PInf else if b < 0 then NInf else NaN)"
| "NInf * Fin b = (if 0 < b then NInf else if b < 0 then PInf else NaN)"
| "Fin a * PInf = (if 0 < a then PInf else if a < 0 then NInf else NaN)"
| "Fin a * NInf = (if 0 < a then NInf else if a < 0 then PInf else NaN)"
| "PInf * PInf = PInf"
| "PInf * NInf = NInf"
| "NInf * PInf = NInf"
| "NInf * NInf = PInf"

fun divide_jsnum :: "jsnum \<Rightarrow> jsnum \<Rightarrow> jsnum" where
  "divide_jsnum (Fin a) (Fin b) =
     (if b \<noteq> 0 then Fin (a / b)
      else if 0 < a then PInf else if a < 0 then NInf else NaN)"
| "divide_jsnum NaN _ = NaN"
| "divide_jsnum _ NaN = NaN"
| "divide_jsnum (Fin a) PInf = Fin 0"
| "divide_jsnum (Fin a) NInf = Fin 0"
| "divide_jsnum PInf (Fin b) = (if 0 \<le> b then PInf else NInf)"
| "divide_jsnum NInf (Fin b) = (if 0 \<le> b then NInf else PInf)"
| "divide_jsnum PInf PInf = NaN"
| "divide_jsnum PInf NInf = NaN"
| "divide_jsnum NInf PInf = NaN"
| "divide_jsnum NInf NInf = NaN"

fun less_jsnum :: "jsnum \<Rightarrow> jsnum \<Rightarrow> bool" where
  "Fin a < Fin b \<longleftrightarrow> a < b"
| "NaN < _ \<longleftrightarrow> False"
| "_ < NaN \<longleftrightarrow> False"
| "PInf < _ \<longleftrightarrow> False"
| "_ < PInf \<longleftrightarrow> True"
| "NInf < NInf \<longleftrightarrow> False"
| "NInf < _ \<longleftrightarrow> True"
| "_ < NInf \<longleftrightarrow> False"

fun less_eq_jsnum :: "jsnum \<Rightarrow> jsnum \<Rightarrow> bool" where
  "Fin a \<le> Fin b \<longleftrightarrow> a \<le> b"
| "NaN \<le> _ \<longleftrightarrow> False"
| "_ \<le> NaN \<longleftrightarrow> False"
| "_ \<le> PInf \<longleftrightarrow> True"
| "NInf \<le> _ \<longleftrightarrow> True"
| "PInf \<le> _ \<longleftrightarrow> False"
| "_ \<le> NInf \<longleftrightarrow> False"

instance ..

end

instantiation jsnum :: inverse
begin

definition inverse_jsnum :: "jsnum \<Rightarrow> jsnum" where
  "inverse_jsnum a = divide (Fin 1) a"

instance ..

end

text \<open>Strict equality \<open>===\<close> on numbers: \<open>NaN\<close> is not equal to itself.\<close>

definition js_eq :: "jsnum \<Rightarrow> jsnum \<Rightarrow> bool" where
  "js_eq a b \<longleftrightarrow> a \<noteq> NaN \<and> b \<noteq> NaN \<and> a = b"

text \<open>Truthiness of a number, as \<open>x || d\<close> tests it: \<open>0\<close> and \<open>NaN\<close> are falsy.\<close>

definition js_or :: "jsnum \<Rightarrow> jsnum \<Rightarrow> jsnum" where
  "js_or x d = (if x = Fin 0 \<or> x = NaN then d else x)"

subsection \<open>The \<open>Math\<close> functions the program calls\<close>

fun Math_sqrt :: "jsnum \<Rightarrow> jsnum" where
  "Math_sqrt (Fin x) = (if x < 0 then NaN else Fin (sqrt x))"
| "Math_sqrt PInf = PInf"
| "Math_sqrt NInf = NaN"
| "Math_sqrt NaN = NaN"

fun Math_log10 :: "jsnum \<Rightarrow> jsnum" where
  "Math_log10 (Fin x) = (if x < 0 then NaN else if x = 0 then NInf else Fin (log 10 x))"
| "Math_log10 PInf = PInf"
| "Math_log10 NInf = NaN"
| "Math_log10 NaN = NaN"

fun Math_exp :: "jsnum \<Rightarrow> jsnum" where
  "Math_exp (Fin x) = Fin (exp x)"
| "Math_exp PInf = PInf"
| "Math_exp NInf = Fin 0"
| "Math_exp NaN = NaN"

fun Math_abs :: "jsnum \<Rightarrow> jsnum" where
  "Math_abs (Fin x) = Fin \<bar>x\<bar>"
| "Math_abs PInf = PInf"
| "Math_abs NInf = PInf"
| "Math_abs NaN = NaN"

text \<open>\<open>Math.min\<close> and \<open>Math.max\<close> of two arguments return \<open>NaN\<close> when either is \<open>NaN\<close>.\<close>

definition Math_min :: "jsnum \<Rightarrow> jsnum \<Rightarrow> jsnum" where
  "Math_min a b = (if a = NaN \<or> b = NaN then NaN else if a \<le> b then a else b)"

definition Math_max :: "jsnum \<Rightarrow> jsnum \<Rightarrow> jsnum" where
  "Math_max a b = (if a = NaN \<or> b = NaN then NaN else if a \<le> b then b else a)"

fun Math_sin :: "jsnum \<Rightarrow> jsnum" where
  "Math_sin (Fin x) = Fin (sin x)"
| "Math_sin _ = NaN"

fun Math_cos :: "jsnum \<Rightarrow> jsnum" where
  "Math_cos (Fin x) = Fin (cos x)"
| "Math_cos _ = NaN"

fun Math_asin :: "jsnum \<Rightarrow> jsnum" where
  "Math_asin (Fin x) = (if - 1 \<le> x \<and> x \<le> 1 then Fin (arcsin x) else NaN)"
| "Math_asin _ = NaN"

fun Math_atan2 :: "jsnum \<Rightarrow> jsnum \<Rightarrow> jsnum" where
  "Math_atan2 (Fin y) (Fin x) =
     (if 0 < x then Fin (arctan (y / x))
      else if x < 0 then (if 0 \<le> y then Fin (arctan (y / x) + pi) else Fin (arctan (y / x) - pi))
      else if 0 < y then Fin (pi / 2) else if y < 0 then Fin (- pi / 2) else Fin 0)"
| "Math_atan2 NaN _ = NaN"
| "Math_atan2 _ NaN = NaN"
| "Math_atan2 (Fin y) PInf = Fin 0"
| "Math_atan2 (Fin y) NInf = (if 0 \<le> y then Fin pi else Fin (- pi))"
| "Math_atan2 PInf (Fin x) = Fin (pi / 2)"
| "Math_atan2 NInf (Fin x) = Fin (- pi / 2)"
| "Math_atan2 PInf PInf = Fin (pi / 4)"
| "Math_atan2 PInf NInf = Fin (3 * pi / 4)"
| "Math_atan2 NInf PInf = Fin (- pi / 4)"
| "Math_atan2 NInf NInf = Fin (- 3 * pi / 4)"

definition Math_PI :: jsnum where
  "Math_PI = Fin pi"

section \<open>RF utilities (\<open>RFUtils\<close>, \<open>src/js/rf/rf-utils.js\<close>)\<close>

text \<open>The constants set by the constructor.\<close>

definition frequency :: jsnum where
  "frequency = Fin 915000000"

definition wavelength :: jsnum where
  "wavelength = Fin 299792458 / frequency"

definition earthRadius :: jsnum where
  "earthRadius = Fin 6371000"

text \<open>
  \<open>calculateFresnelZoneRadius(d1, d2, n = 1)\<close>; the default of \<open>n\<close> is passed by the caller
  in the model.
\<close>

definition calculateFresnelZoneRadius :: "jsnum \<Rightarrow> jsnum \<Rightarrow> jsnum \<Rightarrow> jsnum" where
  "calculateFresnelZoneRadius d1 d2 n =
     (let d1m = d1 * Fin 1000;
          d2m = d2 * Fin 1000;
          radius = Math_sqrt (n * wavelength * d1m * d2m / (d1m + d2m))
      in radius)"

definition calculateEarthCurvature :: "jsnum \<Rightarrow> jsnum \<Rightarrow> jsnum" where
  "calculateEarthCurvature distance fraction =
     (let distanceMeters = distance * Fin 1000;
          d1 = distanceMeters * fraction;
          d2 = distanceMeters * (Fin 1 - fraction);
          curvature = (d1 * d2) / (Fin 2 * earthRadius)
      in curvature)"

text \<open>
  \<open>calculateFSPL(distance, frequency = this.frequency)\<close>.  The body has no \<open>throw\<close> and calls
  only \<open>Math.log10\<close>, which never throws: the function always returns a number.
\<close>

definition calculateFSPL :: "jsnum \<Rightarrow> jsnum \<Rightarrow> jsnum" where
  "calculateFSPL distance freq =
     (let distanceKm = distance;
          frequencyMHz = freq / Fin 1000000;
          fspl = Fin 20 * Math_log10 distanceKm + Fin 20 * Math_log10 frequencyMHz + Fin 32.44
      in fspl)"

definition calculateKnifeEdgeLoss :: "jsnum \<Rightarrow> jsnum \<Rightarrow> jsnum \<Rightarrow> jsnum" where
  "calculateKnifeEdgeLoss h d1 d2 =
     (let d1m = d1 * Fin 1000;
          d2m = d2 * Fin 1000;
          v = h * Math_sqrt (Fin 2 * (d1m + d2m) / (wavelength * d1m * d2m));
          diffractionLoss =
            (if v \<le> Fin (- 2.4) then Fin 0
             else if v \<le> Fin 0 then Fin 20 * Math_log10 (Fin 0.5 - Fin 0.62 * v)
             else if v \<le> Fin 2.4 then Fin 20 * Math_log10 (Fin 0.5 * Math_exp (Fin (- 0.95) * v))
             else Fin 20 * Math_log10 (Fin 0.4 -
                    Math_sqrt (Fin 0.1184 - (Fin 0.38 - Fin 0.1 * v) * (Fin 0.38 - Fin 0.1 * v))))
      in Math_max (Fin 0) diffractionLoss)"

definition getRequiredFresnelClearance :: "jsnum \<Rightarrow> jsnum" where
  "getRequiredFresnelClearance distance =
     (if distance < Fin 5 then Fin 0.6
      else if distance < Fin 15 then Fin 0.7
      else Fin 0.8)"

subsection \<open>Fresnel clearance of a path profile\<close>

record profile_point =
  distance :: jsnum
  elevation :: jsnum

record obstruction_info =
  ob_distance :: jsnum
  ob_elevation :: jsnum
  ob_requiredHeight :: jsnum
  ob_obstruction :: jsnum
  ob_fresnelRadius :: jsnum

record clearance_results =
  hasAdequateClearance :: bool
  minClearance :: jsnum
  obstructions :: "obstruction_info list"
  requiredClearancePercent :: jsnum
  error :: "string option"

text \<open>One iteration of the loop: the body applied to \<open>point = pathProfile[i]\<close>.\<close>

definition analyzeFresnelClearance_body ::
  "jsnum \<Rightarrow> jsnum \<Rightarrow> jsnum \<Rightarrow> profile_point \<Rightarrow> clearance_results \<Rightarrow> clearance_results" where
  "analyzeFresnelClearance_body txElevation rxElevation totalDistance point results =
     (let d1 = distance point;
          d2 = totalDistance - distance point;
          losHeight = txElevation + (rxElevation - txElevation) * (d1 / totalDistance);
          earthCurvature = calculateEarthCurvature totalDistance (d1 / totalDistance);
          adjustedLosHeight = losHeight + earthCurvature;
          fresnelRadius = calculateFresnelZoneRadius d1 d2 (Fin 1);
          requiredHeight = adjustedLosHeight + fresnelRadius * requiredClearancePercent results;
          terrainHeight = elevation point;
          clearance = terrainHeight - requiredHeight;
          results1 =
            (if clearance > Fin 0
             then results\<lparr>hasAdequateClearance := False,
                    obstructions := obstructions results @
                      [\<lparr>ob_distance = d1, ob_elevation = terrainHeight,
                        ob_requiredHeight = requiredHeight, ob_obstruction = clearance,
                        ob_fresnelRadius = fresnelRadius\<rparr>]\<rparr>
             else results)
      in results1\<lparr>minClearance := Math_min (minClearance results1) (Math_abs clearance)\<rparr>)"

text \<open>The loop \<open>for (let i = 1; i < pathProfile.length - 1; i++)\<close>.\<close>

function analyzeFresnelClearance_loop ::
  "jsnum \<Rightarrow> jsnum \<Rightarrow> jsnum \<Rightarrow> profile_point list \<Rightarrow> nat \<Rightarrow> clearance_results \<Rightarrow> clearance_results" where
  "analyzeFresnelClearance_loop txElevation rxElevation totalDistance pathProfile i results =
     (if int i < int (length pathProfile) - 1
      then analyzeFresnelClearance_loop txElevation rxElevation totalDistance pathProfile (i + 1)
             (analyzeFresnelClearance_body txElevation rxElevation totalDistance (pathProfile ! i) results)
      else results)"
  by pat_completeness auto
termination
  by (relation "measure (\<lambda>(tx, rx, td, p, i, r). length p - i)") auto

declare analyzeFresnelClearance_loop.simps [simp del]

text \<open>
  \<open>analyzeFresnelClearance(pathProfile, txHeight, rxHeight, totalDistance)\<close>.  A missing
  profile (\<open>null\<close> or \<open>undefined\<close>, which \<open>!pathProfile\<close> tests) is \<open>None\<close>.
\<close>

definition analyzeFresnelClearance ::
  "profile_point list option \<Rightarrow> jsnum \<Rightarrow> jsnum \<Rightarrow> jsnum \<Rightarrow> clearance_results" where
  "analyzeFresnelClearance pathProfile txHeight rxHeight totalDistance =
     (let results = \<lparr>hasAdequateClearance = True, minClearance = PInf, obstructions = [],
                      requiredClearancePercent = getRequiredFresnelClearance totalDistance,
                      error = None\<rparr>
      in case pathProfile of
           None \<Rightarrow> results\<lparr>hasAdequateClearance := False, error := Some ''Invalid path profile''\<rparr>
         | Some profile \<Rightarrow>
             if length profile < 2
             then results\<lparr>hasAdequateClearance := False, error := Some ''Invalid path profile''\<rparr>
             else
               let txElevation = elevation (profile ! 0) + txHeight;
                   rxElevation = elevation (profile ! (length profile - 1)) + rxHeight
               in analyzeFresnelClearance_loop txElevation rxElevation totalDistance profile 1 results)"

text \<open>
  The quantities the statements about \<open>minClearance\<close> refer to: the clearance
  \<open>terrainHeight - requiredHeight\<close> that the body of the loop computes for a sample, and
  the absolute clearances of the interior samples \<open>pathProfile[1 .. length - 2]\<close>.
\<close>

definition sample_clearance ::
  "jsnum \<Rightarrow> jsnum \<Rightarrow> jsnum \<Rightarrow> jsnum \<Rightarrow> profile_point \<Rightarrow> jsnum" where
  "sample_clearance txElevation rxElevation totalDistance percent point =
     (let d1 = distance point;
          d2 = totalDistance - distance point;
          losHeight = txElevation + (rxElevation - txElevation) * (d1 / totalDistance);
          adjustedLosHeight = losHeight + calculateEarthCurvature totalDistance (d1 / totalDistance);
          requiredHeight = adjustedLosHeight + calculateFresnelZoneRadius d1 d2 (Fin 1) * percent;
          terrainHeight = elevation point
      in terrainHeight - requiredHeight)"

definition interior_abs_clearances ::
  "profile_point list \<Rightarrow> jsnum \<Rightarrow> jsnum \<Rightarrow> jsnum \<Rightarrow> jsnum list" where
  "interior_abs_clearances profile txHeight rxHeight totalDistance =
     map (\<lambda>point. Math_abs (sample_clearance
             (elevation (profile ! 0) + txHeight)
             (elevation (profile ! (length profile - 1)) + rxHeight)
             totalDistance (getRequiredFresnelClearance totalDistance) point))
       (butlast (tl profile))"

section \<open>Link reliability (\<open>LinkBudgetCalculator.calculateReliability\<close>)\<close>

definition calculateReliability :: "jsnum \<Rightarrow> jsnum" where
  "calculateReliability linkMargin =
     (if linkMargin < Fin (- 10) then Fin 0
      else if linkMargin < Fin 0 then Fin 50 + (linkMargin + Fin 10) * Fin 5
      else if linkMargin < Fin 20 then Fin 90 + linkMargin * Fin 0.5
      else Fin 99.9)"

section \<open>Path interpolation (\<open>ElevationService.generatePathPoints\<close>)\<close>

record geo_point =
  gp_lat :: jsnum
  gp_lng :: jsnum

text \<open>
  The loop \<open>for (let i = 0; i < samples; i++)\<close> of \<open>generatePathPoints\<close>, with the values
  computed before it (\<open>lat1\<close>, \<open>lon1\<close>, \<open>lat2\<close>, \<open>lon2\<close> and the angular distance \<open>c\<close>) as
  parameters.  The second point, \<open>end\<close> in the source, is \<open>end_pt\<close>.
\<close>

function generatePathPoints_loop ::
  "geo_point \<Rightarrow> geo_point \<Rightarrow> nat \<Rightarrow> jsnum \<Rightarrow> jsnum \<Rightarrow> jsnum \<Rightarrow> jsnum \<Rightarrow> jsnum \<Rightarrow>
   nat \<Rightarrow> geo_point list \<Rightarrow> geo_point list" where
  "generatePathPoints_loop start end_pt samples lat1 lon1 lat2 lon2 c i points =
     (if i < samples
      then
        (let fraction = Fin (real i) / (Fin (real samples) - Fin 1);
             point =
               (if js_eq fraction (Fin 0) then \<lparr>gp_lat = gp_lat start, gp_lng = gp_lng start\<rparr>
                else if js_eq fraction (Fin 1) then \<lparr>gp_lat = gp_lat end_pt, gp_lng = gp_lng end_pt\<rparr>
                else
                  (let A = Math_sin ((Fin 1 - fraction) * c) / Math_sin c;
                       B = Math_sin (fraction * c) / Math_sin c;
                       x = A * Math_cos lat1 * Math_cos lon1 + B * Math_cos lat2 * Math_cos lon2;
                       y = A * Math_cos lat1 * Math_sin lon1 + B * Math_cos lat2 * Math_sin lon2;
                       z = A * Math_sin lat1 + B * Math_sin lat2;
                       lat = Math_atan2 z (Math_sqrt (x * x + y * y));
                       lon = Math_atan2 y x
                   in \<lparr>gp_lat = lat * Fin 180 / Math_PI, gp_lng = lon * Fin 180 / Math_PI\<rparr>))
         in generatePathPoints_loop start end_pt samples lat1 lon1 lat2 lon2 c (i + 1)
              (points @ [point]))
      else points)"
  by pat_completeness auto
termination
  by (relation "measure (\<lambda>(s, e, n, la1, lo1, la2, lo2, c, i, ps). n - i)") auto

declare generatePathPoints_loop.simps [simp del]

definition generatePathPoints :: "geo_point \<Rightarrow> geo_point \<Rightarrow> nat \<Rightarrow> geo_point list" where
  "generatePathPoints start end_pt samples =
     (let R = Fin 6371;
          lat1 = gp_lat start * Math_PI / Fin 180;
          lon1 = gp_lng start * Math_PI / Fin 180;
          lat2 = gp_lat end_pt * Math_PI / Fin 180;
          lon2 = gp_lng end_pt * Math_PI / Fin 180;
          dLat = lat2 - lat1;
          dLon = lon2 - lon1;
          a = Math_sin (dLat / Fin 2) * Math_sin (dLat / Fin 2) +
              Math_cos lat1 * Math_cos lat2 *
              Math_sin (dLon / Fin 2) * Math_sin (dLon / Fin 2);
          c = Fin 2 * Math_atan2 (Math_sqrt a) (Math_sqrt (Fin 1 - a));
          totalDistance = R * c
      in generatePathPoints_loop start end_pt samples lat1 lon1 lat2 lon2 c 0 [])"

section \<open>RF calculator of the API (\<open>RFCalculator\<close>, \<open>api/rf-utils.js\<close>)\<close>


text \<open>The fields set by the constructor of \<open>RFCalculator\<close>.\<close>

definition RFCalculator_frequency :: jsnum where
  "RFCalculator_frequency = Fin 915000000"

definition RFCalculator_c :: jsnum where
  "RFCalculator_c = Fin 299792458"

definition RFCalculator_antennaHeight :: jsnum where
  "RFCalculator_antennaHeight = Fin 1.83"

definition RFCalculator_antennaGain :: jsnum where
  "RFCalculator_antennaGain = Fin 5"

definition RFCalculator_receiverSensitivity :: jsnum where
  "RFCalculator_receiverSensitivity = Fin (- 137)"

definition RFCalculator_earthRadius :: jsnum where
  "RFCalculator_earthRadius = Fin 6371000"

definition freeSpacePathLoss :: "jsnum \<Rightarrow> jsnum" where
  "freeSpacePathLoss dist_m =
     (let wavelength = RFCalculator_c / RFCalculator_frequency
      in Fin 20 * Math_log10 (Fin 4 * Math_PI * dist_m / wavelength))"

definition fresnelRadius :: "jsnum \<Rightarrow> jsnum \<Rightarrow> jsnum" where
  "fresnelRadius totalDistance distanceFromTx =
     (let wavelength = RFCalculator_c / RFCalculator_frequency;
          d2 = totalDistance - distanceFromTx
      in Math_sqrt ((wavelength * distanceFromTx * d2) / totalDistance))"

definition earthCurvature :: "jsnum \<Rightarrow> jsnum \<Rightarrow> jsnum" where
  "earthCurvature dist_m positionRatio =
     (let d1 = dist_m * positionRatio;
          d2 = dist_m * (Fin 1 - positionRatio)
      in (d1 * d2) / (Fin 2 * RFCalculator_earthRadius))"

record terrain_analysis =
  ta_clearance :: jsnum
  ta_obstruction :: jsnum
  ta_minClearance :: jsnum

text \<open>
  One iteration of the loop of \<open>analyzeTerrainProfile\<close>, on the pair
  \<open>(minClearanceRatio, maxObstruction)\<close> of the variables it updates.
\<close>

definition analyzeTerrainProfile_body ::
  "jsnum \<Rightarrow> jsnum \<Rightarrow> jsnum \<Rightarrow> profile_point \<Rightarrow> jsnum \<times> jsnum \<Rightarrow> jsnum \<times> jsnum" where
  "analyzeTerrainProfile_body startElevation endElevation totalDistance point st =
     (let (minClearanceRatio, maxObstruction) = st;
          positionRatio = distance point / totalDistance;
          losHeight = startElevation + (endElevation - startElevation) * positionRatio;
          curvature = earthCurvature totalDistance positionRatio;
          adjustedLosHeight = losHeight - curvature;
          fresnelR = fresnelRadius totalDistance (distance point);
          requiredHeight = adjustedLosHeight + Fin 0.6 * fresnelR;
          terrainHeight = elevation point;
          clearanceHeight = adjustedLosHeight - terrainHeight;
          clearanceRatio = clearanceHeight / fresnelR;
          minClearanceRatio1 = Math_min minClearanceRatio clearanceRatio;
          maxObstruction1 =
            (if terrainHeight > requiredHeight
             then (let obstruction = (terrainHeight - requiredHeight) / fresnelR
                   in Math_max maxObstruction obstruction)
             else maxObstruction)
      in (minClearanceRatio1, maxObstruction1))"

function analyzeTerrainProfile_loop ::
  "jsnum \<Rightarrow> jsnum \<Rightarrow> jsnum \<Rightarrow> profile_point list \<Rightarrow> nat \<Rightarrow> jsnum \<times> jsnum \<Rightarrow> jsnum \<times> jsnum" where
  "analyzeTerrainProfile_loop startElevation endElevation totalDistance elevationProfile i st =
     (if int i < int (length elevationProfile) - 1
      then analyzeTerrainProfile_loop startElevation endElevation totalDistance elevationProfile (i + 1)
             (analyzeTerrainProfile_body startElevation endElevation totalDistance
                (elevationProfile ! i) st)
      else st)"
  by pat_completeness auto
termination
  by (relation "measure (\<lambda>(s, e, td, p, i, st). length p - i)") auto

declare analyzeTerrainProfile_loop.simps [simp del]

text \<open>
  \<open>analyzeTerrainProfile(elevationProfile, totalDistance, txHeight, rxHeight)\<close>; the callers
  pass both heights.
\<close>

definition analyzeTerrainProfile ::
  "profile_point list \<Rightarrow> jsnum \<Rightarrow> jsnum \<Rightarrow> jsnum \<Rightarrow> terrain_analysis" where
  "analyzeTerrainProfile elevationProfile totalDistance txHeight rxHeight =
     (if length elevationProfile < 2
      then \<lparr>ta_clearance = Fin 1.0, ta_obstruction = Fin 0, ta_minClearance = PInf\<rparr>
      else
        let startElevation = elevation (elevationProfile ! 0) + txHeight;
            endElevation = elevation (elevationProfile ! (length elevationProfile - 1)) + rxHeight;
            (minClearanceRatio, maxObstruction) =
               analyzeTerrainProfile_loop startElevation endElevation totalDistance
                 elevationProfile 1 (PInf, Fin 0)
        in \<lparr>ta_clearance = Math_max (Fin 0) minClearanceRatio,
            ta_obstruction = maxObstruction,
            ta_minClearance = minClearanceRatio\<rparr>)"

record link_budget =
  lb_txPowerDbm :: jsnum
  lb_pathLoss :: jsnum
  lb_obstructionLoss :: jsnum
  lb_fresnelLoss :: jsnum
  lb_receivedPower :: jsnum
  lb_linkMargin :: jsnum
  lb_quality :: string
  lb_distance :: jsnum
  lb_terrainAnalysis :: terrain_analysis

definition calculateLinkBudget ::
  "jsnum \<Rightarrow> jsnum \<Rightarrow> jsnum \<Rightarrow> terrain_analysis \<Rightarrow> link_budget" where
  "calculateLinkBudget txPower rxPower dist_m terrainAnalysis =
     (let txPowerDbm = Fin 10 * Math_log10 (txPower * Fin 1000);
          pathLoss = freeSpacePathLoss dist_m;
          obstructionLoss =
            (if ta_obstruction terrainAnalysis > Fin 0
             then (let v = ta_obstruction terrainAnalysis
                   in if v > Fin 0 then Fin 20 * Math_log10 (Math_sqrt (Fin 2 * Math_PI * v))
                      else Fin 0)
             else Fin 0);
          fresnelLoss =
            (if ta_clearance terrainAnalysis < Fin 1.0
             then Fin 6 * (Fin 1 - ta_clearance terrainAnalysis)
             else Fin 0);
          totalGain = Fin 2 * RFCalculator_antennaGain;
          receivedPower = txPowerDbm + totalGain - pathLoss - obstructionLoss - fresnelLoss;
          linkMargin = receivedPower - RFCalculator_receiverSensitivity;
          quality =
            (if linkMargin \<ge> Fin 20 then ''good''
             else if linkMargin \<ge> Fin 10 then ''marginal''
             else ''poor'')
      in \<lparr>lb_txPowerDbm = txPowerDbm, lb_pathLoss = pathLoss,
          lb_obstructionLoss = obstructionLoss, lb_fresnelLoss = fresnelLoss,
          lb_receivedPower = receivedPower, lb_linkMargin = linkMargin,
          lb_quality = quality, lb_distance = dist_m / Fin 1000,
          lb_terrainAnalysis = terrainAnalysis\<rparr>)"



section \<open>Coverage polygons (\<open>api/coverage.js\<close> and its enhanced variant)\<close>

text \<open>
  The repository holds two versions of the coverage endpoint: \<open>api/coverage.js\<close> and a
  later variant that adjusts resolution and range to the power and bounds the processing
  time.  They share \<open>calculateDestination\<close>, \<open>calculateCoverageInDirection\<close> and the code
  that builds the polygon points from the rays.

  In both versions the body of \<open>generateCoveragePolygon\<close> declares \<open>const maxRange\<close>, the
  name of its fifth parameter, a second time.  ECMAScript rejects such a function when
  the module is read (an early \<open>SyntaxError\<close>), so no call of it ever runs.  The model keeps
  the two levels apart: \<open>generateCoveragePolygon\<close> is the function as it is shipped, and
  \<open>coveragePoints\<close> is the list that the statements of its body, up to the duplicate
  declaration, compute from the parameters.
\<close>

datatype js_error = SyntaxError

text \<open>
  The early error of a function whose body declares, with \<open>let\<close> or \<open>const\<close> at its top
  level, a name that is also one of its parameters.
\<close>

definition redeclaresParameter :: "string list \<Rightarrow> string list \<Rightarrow> bool" where
  "redeclaresParameter parameters declaredNames \<longleftrightarrow>
     list_ex (\<lambda>name. name \<in> set declaredNames) parameters"

definition calculateDestination :: "jsnum \<Rightarrow> jsnum \<Rightarrow> jsnum \<Rightarrow> jsnum \<Rightarrow> geo_point" where
  "calculateDestination lat lng bearing distanceKm =
     (let R = Fin 6371;
          bearingRad = bearing * Math_PI / Fin 180;
          latRad = lat * Math_PI / Fin 180;
          lngRad = lng * Math_PI / Fin 180;
          newLatRad = Math_asin (
            Math_sin latRad * Math_cos (distanceKm / R) +
            Math_cos latRad * Math_sin (distanceKm / R) * Math_cos bearingRad);
          newLngRad = lngRad + Math_atan2
            (Math_sin bearingRad * Math_sin (distanceKm / R) * Math_cos latRad)
            (Math_cos (distanceKm / R) - Math_sin latRad * Math_sin newLatRad)
      in \<lparr>gp_lat = newLatRad * Fin 180 / Math_PI, gp_lng = newLngRad * Fin 180 / Math_PI\<rparr>)"

text \<open>
  The elevation endpoint is outside the core.  What one request of
  \<open>calculateCoverageInDirection\<close> can observe of it is one of three outcomes: the \<open>try\<close> block
  throws (the request or its timeout rejects, the body is not JSON, the analysis fails on
  a malformed profile), the response is not \<open>ok\<close>, or it is \<open>ok\<close> and carries a profile
  (\<open>elevationData.profile || []\<close>).  An \<open>elevation_api\<close> gives the outcome of the request made
  on a bearing at a distance; the properties hold for every such function.
\<close>

datatype fetch_outcome = Rejected | NotOk | Ok_profile "profile_point list"

type_synonym elevation_api = "jsnum \<Rightarrow> jsnum \<Rightarrow> fetch_outcome"

record ray_result =
  rr_lat :: jsnum
  rr_lng :: jsnum
  rr_coverageDistance :: jsnum
  rr_linkMargin :: jsnum

text \<open>
  The ray-marching loop \<open>for (let distance = stepSize; distance <= maxRange; distance +=
  stepSize)\<close> on the pair \<open>(lastGoodDistance, lastGoodPoint)\<close>; \<open>Some\<close> is the state at the exit
  of the loop.  With an infinite \<open>maxRange\<close> the loop need not end.
\<close>

partial_function (option) calculateCoverageInDirection_loop ::
  "elevation_api \<Rightarrow> jsnum \<Rightarrow> jsnum \<Rightarrow> jsnum \<Rightarrow> jsnum \<Rightarrow> jsnum \<Rightarrow> jsnum \<Rightarrow> jsnum \<times> geo_point \<Rightarrow>
   (jsnum \<times> geo_point) option" where
  "calculateCoverageInDirection_loop api txLat txLng powerW bearing maxRange distanceKm st =
     (let stepSize = Fin 0.5;
          minLinkMargin = Fin 10
      in if distanceKm \<le> maxRange
         then
           (let point = calculateDestination txLat txLng bearing distanceKm;
                response = api bearing distanceKm
            in if response = Rejected
               then
                 (let estimatedRange = (if powerW \<ge> Fin 1.0 then Fin 15 else Fin 8)
                  in if distanceKm \<le> estimatedRange
                     then calculateCoverageInDirection_loop api txLat txLng powerW bearing maxRange
                            (distanceKm + stepSize) (distanceKm, point)
                     else Some st)
               else
                 (let elevationProfile0 =
                        (case response of Ok_profile profile \<Rightarrow> profile | _ \<Rightarrow> []);
                      distanceM = distanceKm * Fin 1000;
                      elevationProfile =
                        (if length elevationProfile0 = 0
                         then [\<lparr>distance = Fin 0, elevation = Fin 100\<rparr>,
                               \<lparr>distance = distanceM, elevation = Fin 100\<rparr>]
                         else elevationProfile0);
                      totalDistance = distanceKm * Fin 1000;
                      terrainAnalysis = analyzeTerrainProfile elevationProfile totalDistance
                        RFCalculator_antennaHeight RFCalculator_antennaHeight;
                      linkBudget = calculateLinkBudget powerW powerW totalDistance terrainAnalysis
                  in if lb_linkMargin linkBudget \<ge> minLinkMargin
                     then calculateCoverageInDirection_loop api txLat txLng powerW bearing maxRange
                            (distanceKm + stepSize) (distanceKm, point)
                     else Some st))
         else Some st)"

definition calculateCoverageInDirection ::
  "elevation_api \<Rightarrow> jsnum \<Rightarrow> jsnum \<Rightarrow> jsnum \<Rightarrow> jsnum \<Rightarrow> jsnum \<Rightarrow> ray_result option" where
  "calculateCoverageInDirection api txLat txLng powerW bearing maxRange =
     (case calculateCoverageInDirection_loop api txLat txLng powerW bearing maxRange (Fin 0.5)
             (Fin 0, \<lparr>gp_lat = txLat, gp_lng = txLng\<rparr>) of
        None \<Rightarrow> None
      | Some (lastGoodDistance, lastGoodPoint) \<Rightarrow>
          Some \<lparr>rr_lat = gp_lat lastGoodPoint, rr_lng = gp_lng lastGoodPoint,
                rr_coverageDistance = lastGoodDistance, rr_linkMargin = Fin 10\<rparr>)"

text \<open>
  The loop \<open>for (let angle = 0; angle < 360; angle += step) angles.push(angle)\<close>, which both
  generators run on the resolution and on the constant step \<open>30\<close> of the fallback circle.
  It does not end when the step is not positive.
\<close>

partial_function (option) angles_loop :: "jsnum \<Rightarrow> jsnum \<Rightarrow> jsnum list \<Rightarrow> jsnum list option" where
  "angles_loop step angle angles =
     (if angle < Fin 360 then angles_loop step (angle + step) (angles @ [angle])
      else Some angles)"

record coverage_point =
  cp_lat :: jsnum
  cp_lng :: jsnum
  cp_distance :: jsnum
  cp_angle :: jsnum
  cp_linkMargin :: jsnum

text \<open>
  The code after the batches, the same in both versions: the rays with a positive
  coverage distance become polygon points, and a list of fewer than three points is
  extended by the twelve points of the fallback circle.  The results and the angles have
  the same length, so \<open>angles[index]\<close> pairs them.
\<close>

definition buildPolygonPoints :: "ray_result list \<Rightarrow> jsnum list \<Rightarrow> coverage_point list" where
  "buildPolygonPoints results angles =
     map (\<lambda>(result, angle).
            \<lparr>cp_lat = rr_lat result, cp_lng = rr_lng result,
             cp_distance = rr_coverageDistance result, cp_angle = angle,
             cp_linkMargin = js_or (rr_linkMargin result) (Fin 10)\<rparr>)
       (filter (\<lambda>(result, angle). rr_coverageDistance result > Fin 0) (zip results angles))"

definition fallbackCircle :: "jsnum \<Rightarrow> jsnum \<Rightarrow> jsnum \<Rightarrow> coverage_point list option" where
  "fallbackCircle lat lng powerW =
     (let fallbackRadius = (if powerW \<ge> Fin 1.0 then Fin 10 else Fin 6)
      in case angles_loop (Fin 30) (Fin 0) [] of
           None \<Rightarrow> None
         | Some angles \<Rightarrow>
             Some (map (\<lambda>angle.
                     (let point = calculateDestination lat lng angle fallbackRadius
                      in \<lparr>cp_lat = gp_lat point, cp_lng = gp_lng point,
                          cp_distance = fallbackRadius, cp_angle = angle,
                          cp_linkMargin = Fin 15\<rparr>)) angles))"

definition polygonPoints ::
  "jsnum \<Rightarrow> jsnum \<Rightarrow> jsnum \<Rightarrow> ray_result list \<Rightarrow> jsnum list \<Rightarrow> coverage_point list option" where
  "polygonPoints lat lng powerW results angles =
     (let coveragePoints = buildPolygonPoints results angles
      in if length coveragePoints < 3
         then map_option (\<lambda>circle. coveragePoints @ circle) (fallbackCircle lat lng powerW)
         else Some coveragePoints)"

subsection \<open>\<open>generateCoveragePolygon\<close> of \<open>api/coverage.js\<close>\<close>

text \<open>
  The batches \<open>for (let i = 0; i < angles.length; i += batchSize)\<close> with \<open>batchSize = 8\<close>:
  \<open>Promise.all\<close> over the rays of \<open>angles.slice(i, i + batchSize)\<close>.  A ray that does not
  return keeps the whole call from returning.
\<close>

function coverageBatches ::
  "elevation_api \<Rightarrow> jsnum \<Rightarrow> jsnum \<Rightarrow> jsnum \<Rightarrow> jsnum \<Rightarrow> jsnum list \<Rightarrow> nat \<Rightarrow> ray_result list \<Rightarrow>
   ray_result list option" where
  "coverageBatches api lat lng powerW maxRange angles i results =
     (if i < length angles
      then
        (let batch = take 8 (drop i angles)
         in case those (map (\<lambda>angle. calculateCoverageInDirection api lat lng powerW angle maxRange)
                          batch) of
              None \<Rightarrow> None
            | Some batchResults \<Rightarrow>
                coverageBatches api lat lng powerW maxRange angles (i + 8) (results @ batchResults))
      else Some results)"
  by pat_completeness auto
termination
  by (relation "measure (\<lambda>(api, lat, lng, p, m, angles, i, rs). length angles - i)") auto

declare coverageBatches.simps [simp del]

text \<open>The loop over the bearings, from \<open>0\<close> in steps of the resolution.\<close>

definition coverageAngles :: "jsnum \<Rightarrow> jsnum list option" where
  "coverageAngles resolution = angles_loop resolution (Fin 0) []"

text \<open>
  The list \<open>coveragePoints\<close>, the \<open>polygon\<close> field of the result, as the statements of the
  body compute it: the angles, the batches of rays, the polygon points.
\<close>

definition coveragePoints ::
  "elevation_api \<Rightarrow> jsnum \<Rightarrow> jsnum \<Rightarrow> jsnum \<Rightarrow> jsnum \<Rightarrow> jsnum \<Rightarrow> coverage_point list option" where
  "coveragePoints api lat lng powerW resolution maxRange =
     (case coverageAngles resolution of
        None \<Rightarrow> None
      | Some angles \<Rightarrow>
          (case coverageBatches api lat lng powerW maxRange angles 0 [] of
             None \<Rightarrow> None
           | Some results \<Rightarrow> polygonPoints lat lng powerW results angles))"

text \<open>
  The function as shipped: its parameters, the names its body declares at top level with
  \<open>const\<close>, and the outcome of a request.
\<close>

definition generateCoveragePolygon_parameters :: "string list" where
  "generateCoveragePolygon_parameters = [''lat'', ''lng'', ''power'', ''resolution'', ''maxRange'']"

definition generateCoveragePolygon_declaredNames :: "string list" where
  "generateCoveragePolygon_declaredNames =
     [''coveragePoints'', ''angles'', ''batchSize'', ''results'', ''maxRange'', ''avgRange'']"

definition generateCoveragePolygon ::
  "elevation_api \<Rightarrow> jsnum \<Rightarrow> jsnum \<Rightarrow> jsnum \<Rightarrow> jsnum \<Rightarrow> jsnum \<Rightarrow>
   js_error + coverage_point list option" where
  "generateCoveragePolygon api lat lng powerW resolution maxRange =
     (if redeclaresParameter generateCoveragePolygon_parameters generateCoveragePolygon_declaredNames
      then Inl SyntaxError
      else Inr (coveragePoints api lat lng powerW resolution maxRange))"

subsection \<open>\<open>generateCoveragePolygon\<close> of the enhanced variant\<close>








section \<open>Link colours of the user interface (\<open>drawEnhancedLinkLine\<close>)\<close>

definition colors :: "string \<rightharpoonup> string" where
  "colors = [''excellent'' \<mapsto> ''#059669'', ''good'' \<mapsto> ''#10b981'',
             ''marginal'' \<mapsto> ''#f59e0b'', ''poor'' \<mapsto> ''#ef4444'']"

section \<open>Invariants of the loops\<close>

text \<open>
  The invariant of the clearance loop on a flat profile: no obstruction has been
  recorded, and the required clearance fraction is the finite value \<open>p\<close>.
\<close>

definition flat_inv :: "real \<Rightarrow> clearance_results \<Rightarrow> bool" where
  "flat_inv p r \<longleftrightarrow>
     hasAdequateClearance r \<and> obstructions r = [] \<and> requiredClearancePercent r = Fin p"


section \<open>Properties\<close>

text \<open>
  C3: for every link margin \<open>m\<close> the reliability is \<open>0\<close> below \<open>-10\<close>,
  \<open>50 + (m + 10) * 5\<close> on \<open>[-10, 0)\<close>, \<open>90 + m * 0.5\<close> on \<open>[0, 20)\<close> and \<open>99.9\<close> from \<open>20\<close> on.
\<close>

theorem calculateReliability_piecewise:
  "(m < - 10 \<longrightarrow> calculateReliability (Fin m) = Fin 0) \<and>
   (- 10 \<le> m \<and> m < 0 \<longrightarrow> calculateReliability (Fin m) = Fin (50 + (m + 10) * 5)) \<and>
   (0 \<le> m \<and> m < 20 \<longrightarrow> calculateReliability (Fin m) = Fin (90 + m * 0.5)) \<and>
   (20 \<le> m \<longrightarrow> calculateReliability (Fin m) = Fin 99.9)"
  by (simp add: calculateReliability_def)

theorem calculateReliability_piecewise_witness:
  "calculateReliability (Fin (- 11)) = Fin 0 \<and>
   calculateReliability (Fin (- 4)) = Fin 80 \<and>
   calculateReliability (Fin 10) = Fin 95 \<and>
   calculateReliability (Fin 20) = Fin 99.9"
  using calculateReliability_piecewise [of "- 11"] calculateReliability_piecewise [of "- 4"]
    calculateReliability_piecewise [of 10] calculateReliability_piecewise [of 20]
  by simp

subsection \<open>Flat profiles have adequate clearance\<close>

lemma wavelength_Fin: "wavelength = Fin (299792458 / 915000000)"
  by (simp add: wavelength_def frequency_def)

lemma flat_arith:
  fixes d D h p :: real
  assumes D: "0 < D" and h: "0 < h" and p: "0 \<le> p"
    and arg: "\<not> 149896229 * d * (D * 1000 - d * 1000) / (457500000 * D) < 0"
  shows "\<not> h < - (500 * (D * (d * (1 - d / D))) / 6371) -
              sqrt (149896229 * d * (D * 1000 - d * 1000) / (457500000 * D)) * p"
proof -
  have eq: "149896229 * d * (D * 1000 - d * 1000) / (457500000 * D)
          = (149896229 * 1000 / (457500000 * D)) * (d * (D - d))"
    using D by (simp add: field_simps)
  have pos: "0 < 149896229 * 1000 / (457500000 * D)"
    using D by simp
  have prod: "0 \<le> d * (D - d)"
  proof (rule ccontr)
    assume "\<not> 0 \<le> d * (D - d)"
    then have "d * (D - d) < 0" by simp
    then have "(149896229 * 1000 / (457500000 * D)) * (d * (D - d)) < 0"
      by (rule mult_pos_neg [OF pos])
    with arg show False unfolding eq by blast
  qed
  have "D * (d * (1 - d / D)) = d * (D - d)"
    using D by (simp add: field_simps)
  with prod have "0 \<le> D * (d * (1 - d / D))"
    by (simp only:)
  then have curv: "0 \<le> 500 * (D * (d * (1 - d / D))) / 6371"
    by simp
  have "0 \<le> sqrt (149896229 * d * (D * 1000 - d * 1000) / (457500000 * D)) * p"
    using arg p by (simp add: not_less)
  with curv h show ?thesis by linarith
qed

text \<open>
  The loop invariant: no obstruction has been recorded.  On a flat profile with equal
  positive antenna heights the body keeps it: either the sample lies between the ends,
  where the curvature and the Fresnel radius are non-negative and the clearance is at
  most \<open>-h\<close>, or the Fresnel radius is \<open>NaN\<close> and the test \<open>clearance > 0\<close> is false.
\<close>

lemma body_flat:
  assumes D: "0 < D" and h: "0 < h" and p: "0 \<le> p"
    and r: "hasAdequateClearance r" "obstructions r = []" "requiredClearancePercent r = Fin p"
    and pt: "distance pt = Fin d" "elevation pt = Fin e"
  shows "hasAdequateClearance (analyzeFresnelClearance_body (Fin (e + h)) (Fin (e + h)) (Fin D) pt r)
       \<and> obstructions (analyzeFresnelClearance_body (Fin (e + h)) (Fin (e + h)) (Fin D) pt r) = []
       \<and> requiredClearancePercent
            (analyzeFresnelClearance_body (Fin (e + h)) (Fin (e + h)) (Fin D) pt r) = Fin p"
  using assms flat_arith [OF D h p, of d]
  by (simp add: analyzeFresnelClearance_body_def Let_def calculateEarthCurvature_def
      calculateFresnelZoneRadius_def wavelength_Fin earthRadius_def minus_jsnum_def)

lemma loop_flat:
  "0 < D \<Longrightarrow> 0 < h \<Longrightarrow> 0 \<le> p \<Longrightarrow> tx = Fin (e + h) \<Longrightarrow> rx = Fin (e + h) \<Longrightarrow> td = Fin D \<Longrightarrow>
   \<forall>q \<in> set profile. elevation q = Fin e \<and> (\<exists>d. distance q = Fin d) \<Longrightarrow>
   flat_inv p r \<Longrightarrow>
   flat_inv p (analyzeFresnelClearance_loop tx rx td profile i r)"
proof (induction tx rx td profile i r rule: analyzeFresnelClearance_loop.induct)
  case (1 tx rx td pathProfile i results)
  show ?case
  proof (cases "int i < int (length pathProfile) - 1")
    case True
    then have "pathProfile ! i \<in> set pathProfile" by simp
    with "1.prems"(7) obtain d
      where pt: "elevation (pathProfile ! i) = Fin e" "distance (pathProfile ! i) = Fin d"
      by blast
    from "1.prems"(8) have r: "hasAdequateClearance results" "obstructions results = []"
        "requiredClearancePercent results = Fin p"
      by (simp_all add: flat_inv_def)
    have "flat_inv p (analyzeFresnelClearance_body tx rx td (pathProfile ! i) results)"
      unfolding flat_inv_def "1.prems"(4,5,6)
      by (rule body_flat [OF "1.prems"(1,2,3) r pt(2) pt(1)])
    then have "flat_inv p (analyzeFresnelClearance_loop tx rx td pathProfile (i + 1)
       (analyzeFresnelClearance_body tx rx td (pathProfile ! i) results))"
      by (rule "1.IH" [OF True "1.prems"(1-7)])
    with True show ?thesis
      by (subst analyzeFresnelClearance_loop.simps) (simp only: if_True)
  next
    case False
    with "1.prems"(8) show ?thesis
      by (subst analyzeFresnelClearance_loop.simps) (simp only: if_False)
  qed
qed

lemma getRequiredFresnelClearance_Fin:
  "getRequiredFresnelClearance (Fin D) = Fin (if D < 5 then 0.6 else if D < 15 then 0.7 else 0.8)"
  by (simp add: getRequiredFresnelClearance_def)

text \<open>
  C1: a profile of at least two samples, all of the same elevation, the first at distance
  \<open>0\<close>, with non-decreasing distances, a positive total distance and equal positive
  antenna heights has adequate clearance and no obstruction.
\<close>

theorem analyzeFresnelClearance_flat_profile:
  assumes len: "2 \<le> length profile"
    and flat: "\<forall>q \<in> set profile. elevation q = Fin e"
    and dist: "map distance profile = map Fin ds"
    and first: "hd ds = 0" and mono: "sorted ds"
    and D: "0 < D" and h: "0 < h"
  shows "hasAdequateClearance (analyzeFresnelClearance (Some profile) (Fin h) (Fin h) (Fin D)) \<and>
         obstructions (analyzeFresnelClearance (Some profile) (Fin h) (Fin h) (Fin D)) = []"
proof -
  define p :: real where "p = (if D < 5 then 0.6 else if D < 15 then 0.7 else 0.8)"
  have p: "0 \<le> p" "getRequiredFresnelClearance (Fin D) = Fin p"
    by (simp_all add: p_def getRequiredFresnelClearance_Fin)
  have fin: "\<forall>q \<in> set profile. elevation q = Fin e \<and> (\<exists>d. distance q = Fin d)"
  proof
    fix q assume q: "q \<in> set profile"
    then have "distance q \<in> set (map distance profile)" by simp
    then have "distance q \<in> set (map Fin ds)" by (simp only: dist)
    then have "\<exists>d. distance q = Fin d" by auto
    with flat q show "elevation q = Fin e \<and> (\<exists>d. distance q = Fin d)" by blast
  qed
  from len have "0 < length profile" "length profile - 1 < length profile"
    by linarith+
  then have "profile ! 0 \<in> set profile" "profile ! (length profile - 1) \<in> set profile"
    by (blast intro: nth_mem)+
  with flat have ends: "elevation (profile ! 0) = Fin e"
      "elevation (profile ! (length profile - 1)) = Fin e"
    by blast+
  let ?r0 = "\<lparr>hasAdequateClearance = True, minClearance = PInf, obstructions = [],
              requiredClearancePercent = Fin p, error = None\<rparr>"
  have r0: "flat_inv p ?r0" by (simp add: flat_inv_def)
  have "flat_inv p (analyzeFresnelClearance_loop (Fin (e + h)) (Fin (e + h)) (Fin D) profile 1 ?r0)"
    by (rule loop_flat [OF D h p(1) refl refl refl fin r0])
  moreover have "\<not> length profile < 2" using len by simp
  ultimately show ?thesis
    by (simp add: analyzeFresnelClearance_def Let_def p(2) ends flat_inv_def del: One_nat_def)
qed

theorem analyzeFresnelClearance_flat_profile_witness:
  "hasAdequateClearance (analyzeFresnelClearance
      (Some [\<lparr>distance = Fin 0, elevation = Fin 100\<rparr>, \<lparr>distance = Fin 5, elevation = Fin 100\<rparr>,
             \<lparr>distance = Fin 10, elevation = Fin 100\<rparr>]) (Fin 10) (Fin 10) (Fin 10)) \<and>
   obstructions (analyzeFresnelClearance
      (Some [\<lparr>distance = Fin 0, elevation = Fin 100\<rparr>, \<lparr>distance = Fin 5, elevation = Fin 100\<rparr>,
             \<lparr>distance = Fin 10, elevation = Fin 100\<rparr>]) (Fin 10) (Fin 10) (Fin 10)) = []"
  using analyzeFresnelClearance_flat_profile [of
      "[\<lparr>distance = Fin 0, elevation = Fin 100\<rparr>, \<lparr>distance = Fin 5, elevation = Fin 100\<rparr>,
        \<lparr>distance = Fin 10, elevation = Fin 100\<rparr>]" 100 "[0, 5, 10]" 10 10]
  by simp

subsection \<open>Knife-edge diffraction loss\<close>

lemma knife_edge_sqrt_bound: "1 / 10 < sqrt (4000 / (299792458 / 915000000 * 1000 * 1000) :: real)"
  by (rule real_less_rsqrt) (simp add: power2_eq_square)


text \<open>
  C2: the knife-edge loss is meant to be a non-negative number for all \<open>d1, d2 > 0\<close> and
  every obstacle height.  For an obstacle of 100 m in the middle of a 2 km path the
  Fresnel parameter is \<open>v > 10\<close>, the radicand \<open>0.1184 - (0.38 - 0.1 v)\<^sup>2\<close> is negative and is
  passed to \<open>Math.sqrt\<close> as it is, and \<open>Math.max(0, NaN)\<close> is \<open>NaN\<close>.
\<close>

theorem calculateKnifeEdgeLoss_large_obstacle_NaN:
  "calculateKnifeEdgeLoss (Fin 100) (Fin 1) (Fin 1) = NaN"
proof -
  define s :: real where "s = sqrt (4000 / (299792458 / 915000000 * 1000 * 1000))"
  have s: "1 / 10 < s" unfolding s_def by (rule knife_edge_sqrt_bound)
  have v: "Fin 100 * Math_sqrt (Fin 2 * (Fin 1 * Fin 1000 + Fin 1 * Fin 1000) /
              (wavelength * (Fin 1 * Fin 1000) * (Fin 1 * Fin 1000))) = Fin (100 * s)"
    by (simp add: wavelength_Fin s_def)
  have big: "62 / 100 < 10 * s - 38 / 100" using s by simp
  have "(62 / 100) * (62 / 100) < (10 * s - 38 / 100) * (10 * s - 38 / 100)"
    by (rule mult_strict_mono [OF big big]) (use big in simp_all)
  then have rad: "0.1184 - (0.38 - 0.1 * (100 * s)) * (0.38 - 0.1 * (100 * s)) < 0"
    by (simp add: algebra_simps)
  show ?thesis
    unfolding calculateKnifeEdgeLoss_def Let_def v
    using s rad by (simp add: minus_jsnum_def Math_max_def)
qed

subsection \<open>Free-space path loss at a non-positive distance\<close>

text \<open>
  C7 (as the code has it): for a distance of \<open>0\<close> the function returns \<open>-Infinity\<close>, for a
  negative distance it returns \<open>NaN\<close> (at every positive finite frequency); it raises no
  error.
\<close>

theorem calculateFSPL_nonpositive_distance:
  "0 < f \<Longrightarrow> d \<le> 0 \<Longrightarrow> calculateFSPL (Fin d) (Fin f) = (if d = 0 then NInf else NaN)"
  by (simp add: calculateFSPL_def Let_def)

theorem calculateFSPL_nonpositive_distance_witness:
  "calculateFSPL (Fin (- 1)) (Fin 915000000) = NaN"
  using calculateFSPL_nonpositive_distance [of 915000000 "- 1"] by simp

text \<open>
  The claim that the call fails for every distance \<open>\<le> 0\<close> is false at distance \<open>0\<close> and the
  default frequency: the call returns the number \<open>-Infinity\<close>.
\<close>

theorem calculateFSPL_zero_returns_minus_infinity:
  "calculateFSPL (Fin 0) frequency = NInf"
  by (simp add: calculateFSPL_def Let_def frequency_def)

subsection \<open>Profiles of fewer than two samples\<close>

text \<open>
  C4 (as the code has it): on a profile of fewer than two samples, for any antenna
  heights and total distance, \<open>analyzeFresnelClearance\<close> fails fast: it returns the error
  result, with \<open>hasAdequateClearance = false\<close> and the error \<open>Invalid path profile\<close>.
  \<open>RFCalculator.analyzeTerrainProfile\<close> returns for such a profile the result of a fully
  clear path (clearance \<open>1.0\<close>, obstruction \<open>0\<close>, minimum clearance \<open>Infinity\<close>) and no
  error.
\<close>

theorem short_profile_results:
  "length profile < 2 \<Longrightarrow>
     \<not> hasAdequateClearance (analyzeFresnelClearance (Some profile) txHeight rxHeight totalDistance) \<and>
     error (analyzeFresnelClearance (Some profile) txHeight rxHeight totalDistance)
       = Some ''Invalid path profile'' \<and>
     analyzeTerrainProfile profile totalDistance txHeight rxHeight
       = \<lparr>ta_clearance = Fin 1, ta_obstruction = Fin 0, ta_minClearance = PInf\<rparr>"
  by (simp add: analyzeFresnelClearance_def analyzeTerrainProfile_def Let_def)

theorem short_profile_results_witness:
  "\<not> hasAdequateClearance (analyzeFresnelClearance
        (Some [\<lparr>distance = Fin 0, elevation = Fin 100\<rparr>]) (Fin 10) (Fin 10) (Fin 5)) \<and>
   error (analyzeFresnelClearance
        (Some [\<lparr>distance = Fin 0, elevation = Fin 100\<rparr>]) (Fin 10) (Fin 10) (Fin 5))
     = Some ''Invalid path profile'' \<and>
   analyzeTerrainProfile [\<lparr>distance = Fin 0, elevation = Fin 100\<rparr>] (Fin 5000) (Fin 1.83) (Fin 1.83)
     = \<lparr>ta_clearance = Fin 1, ta_obstruction = Fin 0, ta_minClearance = PInf\<rparr>"
  using short_profile_results [of "[\<lparr>distance = Fin 0, elevation = Fin 100\<rparr>]" "Fin 10" "Fin 10" "Fin 5"]
    short_profile_results [of "[\<lparr>distance = Fin 0, elevation = Fin 100\<rparr>]" "Fin 1.83" "Fin 1.83" "Fin 5000"]
  by simp

text \<open>
  The claim that clearance analysis never reports a short profile as clear is false for
  \<open>analyzeTerrainProfile\<close> on the empty profile: full clearance, no obstruction.
\<close>

theorem analyzeTerrainProfile_empty_profile_clear:
  "ta_clearance (analyzeTerrainProfile [] (Fin 5000) RFCalculator_antennaHeight RFCalculator_antennaHeight) = Fin 1 \<and>
   ta_obstruction (analyzeTerrainProfile [] (Fin 5000) RFCalculator_antennaHeight RFCalculator_antennaHeight) = Fin 0 \<and>
   ta_minClearance (analyzeTerrainProfile [] (Fin 5000) RFCalculator_antennaHeight RFCalculator_antennaHeight) = PInf"
  by (simp add: analyzeTerrainProfile_def)

subsection \<open>Link quality of \<open>RFCalculator.calculateLinkBudget\<close>\<close>

lemma jsnum_ge20_ge10: "Fin 20 \<le> m \<Longrightarrow> Fin 10 \<le> m"
  by (cases m) simp_all

lemma jsnum_ge10_not_ge20: "Fin 10 \<le> m \<Longrightarrow> \<not> Fin 20 \<le> m \<longleftrightarrow> m < Fin 20"
  by (cases m) auto

text \<open>
  C10: the quality is \<open>good\<close> exactly when the link margin is at least 20,
  \<open>marginal\<close> exactly when it is at least 10 and below 20, \<open>poor\<close> otherwise, and never
  \<open>excellent\<close>, for which the user interface has a colour.
\<close>

theorem calculateLinkBudget_quality:
  "(lb_quality (calculateLinkBudget txPower rxPower d ta) = ''good'' \<longleftrightarrow>
      Fin 20 \<le> lb_linkMargin (calculateLinkBudget txPower rxPower d ta)) \<and>
   (lb_quality (calculateLinkBudget txPower rxPower d ta) = ''marginal'' \<longleftrightarrow>
      Fin 10 \<le> lb_linkMargin (calculateLinkBudget txPower rxPower d ta) \<and>
      lb_linkMargin (calculateLinkBudget txPower rxPower d ta) < Fin 20) \<and>
   (lb_quality (calculateLinkBudget txPower rxPower d ta) = ''poor'' \<longleftrightarrow>
      \<not> Fin 20 \<le> lb_linkMargin (calculateLinkBudget txPower rxPower d ta) \<and>
      \<not> (Fin 10 \<le> lb_linkMargin (calculateLinkBudget txPower rxPower d ta) \<and>
         lb_linkMargin (calculateLinkBudget txPower rxPower d ta) < Fin 20)) \<and>
   lb_quality (calculateLinkBudget txPower rxPower d ta) \<noteq> ''excellent'' \<and>
   colors ''excellent'' = Some ''#059669''"
proof -
  define m where "m = lb_linkMargin (calculateLinkBudget txPower rxPower d ta)"
  have q: "lb_quality (calculateLinkBudget txPower rxPower d ta) =
           (if Fin 20 \<le> m then ''good'' else if Fin 10 \<le> m then ''marginal'' else ''poor'')"
    unfolding m_def by (simp add: calculateLinkBudget_def Let_def)
  show ?thesis
    unfolding m_def [symmetric] q
    using jsnum_ge20_ge10 [of m] jsnum_ge10_not_ge20 [of m]
    by (auto simp: colors_def)
qed

subsection \<open>The minimum clearance\<close>

lemma body_minClearance:
  "minClearance (analyzeFresnelClearance_body tx rx td pt r) =
     Math_min (minClearance r) (Math_abs (sample_clearance tx rx td (requiredClearancePercent r) pt))"
  by (simp add: analyzeFresnelClearance_body_def sample_clearance_def Let_def)

lemma body_requiredClearancePercent:
  "requiredClearancePercent (analyzeFresnelClearance_body tx rx td pt r) = requiredClearancePercent r"
  by (simp add: analyzeFresnelClearance_body_def Let_def)

lemma loop_minClearance:
  "i < length profile \<Longrightarrow>
   minClearance (analyzeFresnelClearance_loop tx rx td profile i r) =
     foldl Math_min (minClearance r)
       (map (\<lambda>pt. Math_abs (sample_clearance tx rx td (requiredClearancePercent r) pt))
          (butlast (drop i profile)))"
proof (induction tx rx td profile i r rule: analyzeFresnelClearance_loop.induct)
  case (1 tx rx td pathProfile i results)
  show ?case
  proof (cases "int i < int (length pathProfile) - 1")
    case True
    then have i1: "i + 1 < length pathProfile" by simp
    have drop: "drop i pathProfile = pathProfile ! i # drop (i + 1) pathProfile"
      using "1.prems" by (simp add: Cons_nth_drop_Suc)
    have ne: "\<not> length pathProfile \<le> Suc i" using i1 by simp
    show ?thesis
      apply (subst analyzeFresnelClearance_loop.simps)
      apply (simp only: True if_True "1.IH" [OF True i1] drop)
      apply (simp add: ne body_minClearance body_requiredClearancePercent)
      done
  next
    case False
    with "1.prems" have "length pathProfile = i + 1" by simp
    then have "butlast (drop i pathProfile) = []"
      by (simp add: butlast_conv_take)
    with False show ?thesis
      by (subst analyzeFresnelClearance_loop.simps) simp
  qed
qed

lemma analyzeFresnelClearance_minClearance:
  assumes "2 \<le> length profile"
  shows "minClearance (analyzeFresnelClearance (Some profile) txHeight rxHeight totalDistance) =
         foldl Math_min PInf (interior_abs_clearances profile txHeight rxHeight totalDistance)"
proof -
  have "\<not> length profile < 2" "1 < length profile" using assms by simp_all
  moreover have "drop 1 profile = tl profile" by (simp add: drop_Suc)
  ultimately show ?thesis
    by (simp add: analyzeFresnelClearance_def Let_def loop_minClearance interior_abs_clearances_def
        del: One_nat_def)
qed


lemma jsnum_le_trans: "a \<le> b \<Longrightarrow> b \<le> c \<Longrightarrow> a \<le> (c :: jsnum)"
  by (cases a; cases b; cases c) simp_all

lemma jsnum_le_total: "a \<noteq> NaN \<Longrightarrow> b \<noteq> NaN \<Longrightarrow> a \<le> b \<or> b \<le> (a :: jsnum)"
  by (cases a; cases b) auto

lemma jsnum_le_refl: "a \<noteq> NaN \<Longrightarrow> a \<le> (a :: jsnum)"
  by (cases a) simp_all

lemma jsnum_PInf_le: "PInf \<le> a \<Longrightarrow> a = PInf"
  by (cases a) simp_all

lemma Math_min_NaN [simp]: "Math_min NaN b = NaN" "Math_min a NaN = NaN"
  by (simp_all add: Math_min_def)

lemma Math_min_props:
  assumes "a \<noteq> NaN" "b \<noteq> NaN"
  shows "Math_min a b \<le> a" "Math_min a b \<le> b" "Math_min a b = a \<or> Math_min a b = b"
    "Math_min a b \<noteq> NaN"
  using assms jsnum_le_total [of a b] jsnum_le_refl [of a] jsnum_le_refl [of b]
  by (auto simp: Math_min_def)

lemma foldl_Math_min_from_NaN: "foldl Math_min NaN xs = NaN"
  by (induction xs) simp_all

lemma foldl_Math_min_NaN: "NaN \<in> set xs \<Longrightarrow> foldl Math_min a xs = NaN"
proof (induction xs arbitrary: a)
  case Nil
  then show ?case by simp
next
  case (Cons x xs)
  show ?case
  proof (cases "x = NaN")
    case True
    then show ?thesis by (simp add: foldl_Math_min_from_NaN)
  next
    case False
    with Cons.prems have "NaN \<in> set xs" by simp
    then show ?thesis by (simp add: Cons.IH)
  qed
qed

lemma foldl_Math_min_least:
  "a \<noteq> NaN \<Longrightarrow> NaN \<notin> set xs \<Longrightarrow>
   foldl Math_min a xs \<le> a \<and> (\<forall>x \<in> set xs. foldl Math_min a xs \<le> x) \<and>
   (foldl Math_min a xs = a \<or> foldl Math_min a xs \<in> set xs) \<and> foldl Math_min a xs \<noteq> NaN"
proof (induction xs arbitrary: a)
  case Nil
  then show ?case by (simp add: jsnum_le_refl)
next
  case (Cons x xs)
  from Cons.prems have x: "x \<noteq> NaN" and xs: "NaN \<notin> set xs" by auto
  note m = Math_min_props [OF Cons.prems(1) x]
  note ih = Cons.IH [OF m(4) xs]
  let ?F = "foldl Math_min (Math_min a x) xs"
  from ih have F: "?F \<le> Math_min a x" by blast
  have 1: "?F \<le> a" by (rule jsnum_le_trans [OF F m(1)])
  have 2: "?F \<le> x" by (rule jsnum_le_trans [OF F m(2)])
  from ih have 3: "\<forall>y \<in> set xs. ?F \<le> y" by blast
  from ih m(3) have 4: "?F = a \<or> ?F = x \<or> ?F \<in> set xs" by auto
  from ih have 5: "?F \<noteq> NaN" by blast
  from 1 2 3 4 5 show ?case by simp
qed

lemma Math_abs_nonneg: "c \<noteq> NaN \<Longrightarrow> Fin 0 \<le> Math_abs c"
  by (cases c) simp_all

lemma Math_abs_eq_NaN [simp]: "Math_abs c = NaN \<longleftrightarrow> c = NaN"
  by (cases c) simp_all

lemma interior_abs_clearances_nonneg:
  "c \<in> set (interior_abs_clearances profile txHeight rxHeight totalDistance) \<Longrightarrow> c \<noteq> NaN \<Longrightarrow>
   Fin 0 \<le> c"
  by (auto simp: interior_abs_clearances_def intro: Math_abs_nonneg)

lemma not_less_zero_of_nonneg: "Fin 0 \<le> m \<Longrightarrow> \<not> m < Fin 0"
  by (cases m) simp_all

lemma loop_three:
  "analyzeFresnelClearance_loop tx rx td [a, b, c] (Suc 0) r =
     analyzeFresnelClearance_body tx rx td b r"
  apply (subst analyzeFresnelClearance_loop.simps)
  apply simp
  apply (subst analyzeFresnelClearance_loop.simps)
  apply simp
  done

text \<open>
  C9 (as the code has it): for a profile of at least two samples, \<open>minClearance\<close> is
  \<open>Math.min\<close>, from \<open>Infinity\<close>, over the absolute clearances of the interior samples.  It is
  \<open>Infinity\<close> when there is no interior sample and one of the absolute clearances
  otherwise; it is \<open>NaN\<close> when one of them is \<open>NaN\<close>, and otherwise it is below each of them
  and non-negative; it is never negative.  The sign of the clearance is lost: of the
  two profiles below, whose middle sample lies 1 m above and 1 m below the required
  height, the first is obstructed and the second is clear, and both have
  \<open>minClearance = 1\<close>.
\<close>

theorem analyzeFresnelClearance_minClearance_min_abs:
  fixes profile txHeight rxHeight totalDistance
  assumes "2 \<le> length profile"
  defines "cs \<equiv> interior_abs_clearances profile txHeight rxHeight totalDistance"
    and "m \<equiv> minClearance (analyzeFresnelClearance (Some profile) txHeight rxHeight totalDistance)"
  shows "m = foldl Math_min PInf cs \<and>
         (cs = [] \<longrightarrow> m = PInf) \<and>
         (cs \<noteq> [] \<longrightarrow> m \<in> set cs) \<and>
         (NaN \<in> set cs \<longrightarrow> m = NaN) \<and>
         (NaN \<notin> set cs \<longrightarrow> (\<forall>c \<in> set cs. m \<le> c) \<and> Fin 0 \<le> m) \<and>
         \<not> m < Fin 0 \<and>
         minClearance (analyzeFresnelClearance
           (Some [\<lparr>distance = Fin 0, elevation = Fin 0\<rparr>, \<lparr>distance = Fin 0, elevation = Fin 11\<rparr>,
                  \<lparr>distance = Fin 10, elevation = Fin 0\<rparr>]) (Fin 10) (Fin 10) (Fin 10)) = Fin 1 \<and>
         minClearance (analyzeFresnelClearance
           (Some [\<lparr>distance = Fin 0, elevation = Fin 0\<rparr>, \<lparr>distance = Fin 0, elevation = Fin 9\<rparr>,
                  \<lparr>distance = Fin 10, elevation = Fin 0\<rparr>]) (Fin 10) (Fin 10) (Fin 10)) = Fin 1 \<and>
         \<not> hasAdequateClearance (analyzeFresnelClearance
           (Some [\<lparr>distance = Fin 0, elevation = Fin 0\<rparr>, \<lparr>distance = Fin 0, elevation = Fin 11\<rparr>,
                  \<lparr>distance = Fin 10, elevation = Fin 0\<rparr>]) (Fin 10) (Fin 10) (Fin 10)) \<and>
         hasAdequateClearance (analyzeFresnelClearance
           (Some [\<lparr>distance = Fin 0, elevation = Fin 0\<rparr>, \<lparr>distance = Fin 0, elevation = Fin 9\<rparr>,
                  \<lparr>distance = Fin 10, elevation = Fin 0\<rparr>]) (Fin 10) (Fin 10) (Fin 10))"
proof -
  have m: "m = foldl Math_min PInf cs"
    unfolding m_def cs_def by (rule analyzeFresnelClearance_minClearance [OF assms(1)])
  have nan: "m = NaN" if "NaN \<in> set cs"
    using that by (simp add: m foldl_Math_min_NaN)
  have least: "m \<le> PInf \<and> (\<forall>x \<in> set cs. m \<le> x) \<and> (m = PInf \<or> m \<in> set cs) \<and> m \<noteq> NaN"
    if "NaN \<notin> set cs"
    unfolding m by (rule foldl_Math_min_least [OF _ that]) simp
  have mem: "m \<in> set cs" if ne: "cs \<noteq> []"
  proof (cases "NaN \<in> set cs")
    case True
    with nan show ?thesis by simp
  next
    case False
    from ne obtain c where c: "c \<in> set cs" by (cases cs) auto
    show ?thesis
    proof (rule ccontr)
      assume "m \<notin> set cs"
      with least [OF False] have "m = PInf" "m \<le> c" using c by auto
      then have "c = PInf" by (simp add: jsnum_PInf_le)
      with c \<open>m = PInf\<close> \<open>m \<notin> set cs\<close> show False by simp
    qed
  qed
  have nonneg: "Fin 0 \<le> m" if nn: "NaN \<notin> set cs"
  proof (cases "cs = []")
    case True
    then show ?thesis by (simp add: m)
  next
    case False
    from mem [OF False] least [OF nn] show ?thesis
      unfolding cs_def by (blast intro: interior_abs_clearances_nonneg)
  qed
  have notneg: "\<not> m < Fin 0"
  proof (cases "NaN \<in> set cs")
    case True
    with nan show ?thesis by simp
  next
    case False
    from nonneg [OF False] show ?thesis by (rule not_less_zero_of_nonneg)
  qed
  have ex: "minClearance (analyzeFresnelClearance
           (Some [\<lparr>distance = Fin 0, elevation = Fin 0\<rparr>, \<lparr>distance = Fin 0, elevation = Fin 11\<rparr>,
                  \<lparr>distance = Fin 10, elevation = Fin 0\<rparr>]) (Fin 10) (Fin 10) (Fin 10)) = Fin 1"
       "minClearance (analyzeFresnelClearance
           (Some [\<lparr>distance = Fin 0, elevation = Fin 0\<rparr>, \<lparr>distance = Fin 0, elevation = Fin 9\<rparr>,
                  \<lparr>distance = Fin 10, elevation = Fin 0\<rparr>]) (Fin 10) (Fin 10) (Fin 10)) = Fin 1"
       "\<not> hasAdequateClearance (analyzeFresnelClearance
           (Some [\<lparr>distance = Fin 0, elevation = Fin 0\<rparr>, \<lparr>distance = Fin 0, elevation = Fin 11\<rparr>,
                  \<lparr>distance = Fin 10, elevation = Fin 0\<rparr>]) (Fin 10) (Fin 10) (Fin 10))"
       "hasAdequateClearance (analyzeFresnelClearance
           (Some [\<lparr>distance = Fin 0, elevation = Fin 0\<rparr>, \<lparr>distance = Fin 0, elevation = Fin 9\<rparr>,
                  \<lparr>distance = Fin 10, elevation = Fin 0\<rparr>]) (Fin 10) (Fin 10) (Fin 10))"
    by (simp_all add: analyzeFresnelClearance_def Let_def loop_three
        analyzeFresnelClearance_body_def getRequiredFresnelClearance_def
        calculateEarthCurvature_def calculateFresnelZoneRadius_def wavelength_Fin earthRadius_def
        minus_jsnum_def Math_min_def)
  show ?thesis
  proof (intro conjI impI)
    show "m = foldl Math_min PInf cs" by (rule m)
    show "m = PInf" if "cs = []" using that by (simp add: m)
    show "m \<in> set cs" if "cs \<noteq> []" using that by (rule mem)
    show "m = NaN" if "NaN \<in> set cs" using that by (rule nan)
    show "\<forall>c \<in> set cs. m \<le> c" if "NaN \<notin> set cs" using least [OF that] by blast
    show "Fin 0 \<le> m" if "NaN \<notin> set cs" using that by (rule nonneg)
    show "\<not> m < Fin 0" by (rule notneg)
  qed (rule ex)+
qed

theorem analyzeFresnelClearance_minClearance_min_abs_witness:
  "interior_abs_clearances
      [\<lparr>distance = Fin 0, elevation = Fin 0\<rparr>, \<lparr>distance = Fin 0, elevation = Fin 11\<rparr>,
       \<lparr>distance = Fin 10, elevation = Fin 0\<rparr>] (Fin 10) (Fin 10) (Fin 10) = [Fin 1] \<and>
   minClearance (analyzeFresnelClearance
      (Some [\<lparr>distance = Fin 0, elevation = Fin 0\<rparr>, \<lparr>distance = Fin 0, elevation = Fin 11\<rparr>,
             \<lparr>distance = Fin 10, elevation = Fin 0\<rparr>]) (Fin 10) (Fin 10) (Fin 10)) = Fin 1"
proof -
  have cs: "interior_abs_clearances
      [\<lparr>distance = Fin 0, elevation = Fin 0\<rparr>, \<lparr>distance = Fin 0, elevation = Fin 11\<rparr>,
       \<lparr>distance = Fin 10, elevation = Fin 0\<rparr>] (Fin 10) (Fin 10) (Fin 10) = [Fin 1]"
    by (simp add: interior_abs_clearances_def sample_clearance_def Let_def
        getRequiredFresnelClearance_def calculateEarthCurvature_def calculateFresnelZoneRadius_def
        wavelength_Fin earthRadius_def minus_jsnum_def)
  have len: "2 \<le> length [\<lparr>distance = Fin 0, elevation = Fin 0\<rparr>,
       \<lparr>distance = Fin 0, elevation = Fin 11\<rparr>, \<lparr>distance = Fin 10, elevation = Fin 0\<rparr>]"
    by simp
  from analyzeFresnelClearance_minClearance_min_abs [OF len, of "Fin 10" "Fin 10" "Fin 10"]
  have "minClearance (analyzeFresnelClearance
      (Some [\<lparr>distance = Fin 0, elevation = Fin 0\<rparr>, \<lparr>distance = Fin 0, elevation = Fin 11\<rparr>,
             \<lparr>distance = Fin 10, elevation = Fin 0\<rparr>]) (Fin 10) (Fin 10) (Fin 10)) =
        foldl Math_min PInf [Fin 1]"
    unfolding cs by (rule conjunct1)
  then show ?thesis
    by (simp add: cs Math_min_def)
qed

text \<open>
  The claim that \<open>minClearance\<close> is always non-negative is false when the two ends of the
  path coincide: the total distance is \<open>0\<close>, every sample is at distance \<open>0\<close>, the fraction
  \<open>d1 / totalDistance\<close> is \<open>0/0 = NaN\<close>, and \<open>minClearance\<close> is \<open>NaN\<close>, which is not \<open>\<ge> 0\<close>.
\<close>

theorem analyzeFresnelClearance_minClearance_NaN:
  "minClearance (analyzeFresnelClearance
      (Some [\<lparr>distance = Fin 0, elevation = Fin 100\<rparr>, \<lparr>distance = Fin 0, elevation = Fin 100\<rparr>,
             \<lparr>distance = Fin 0, elevation = Fin 100\<rparr>]) (Fin 10) (Fin 10) (Fin 0)) = NaN \<and>
   \<not> Fin 0 \<le> minClearance (analyzeFresnelClearance
      (Some [\<lparr>distance = Fin 0, elevation = Fin 100\<rparr>, \<lparr>distance = Fin 0, elevation = Fin 100\<rparr>,
             \<lparr>distance = Fin 0, elevation = Fin 100\<rparr>]) (Fin 10) (Fin 10) (Fin 0))"
  by (simp add: analyzeFresnelClearance_def Let_def loop_three
        analyzeFresnelClearance_body_def getRequiredFresnelClearance_def
        calculateEarthCurvature_def calculateFresnelZoneRadius_def wavelength_Fin earthRadius_def
        minus_jsnum_def Math_min_def)

subsection \<open>Path interpolation between coincident points\<close>

lemma Fin_minus [simp]: "Fin a - Fin b = Fin (a - b)"
  by (simp add: minus_jsnum_def)

lemma generatePathPoints_loop_three:
  "generatePathPoints_loop s e 3 lat1 lon1 lat2 lon2 (Fin 0) 0 [] =
     [\<lparr>gp_lat = gp_lat s, gp_lng = gp_lng s\<rparr>, \<lparr>gp_lat = NaN, gp_lng = NaN\<rparr>,
      \<lparr>gp_lat = gp_lat e, gp_lng = gp_lng e\<rparr>]"
  apply (subst generatePathPoints_loop.simps, simp add: js_eq_def Let_def)
  apply (subst generatePathPoints_loop.simps, simp add: js_eq_def Let_def)
  apply (subst generatePathPoints_loop.simps, simp add: js_eq_def Let_def)
  apply (subst generatePathPoints_loop.simps, simp add: js_eq_def Let_def)
  done

text \<open>
  C6: between coincident points the angular distance \<open>c\<close> is \<open>0\<close>.  The samples at fraction
  \<open>0\<close> and \<open>1\<close> are special-cased; an interior sample divides by \<open>Math.sin(c) = 0\<close>
  unguarded, so that \<open>A = B = 0/0 = NaN\<close>: of three samples the middle one has \<open>NaN\<close>
  coordinates instead of being the start point.
\<close>

theorem generatePathPoints_coincident_three:
  "generatePathPoints \<lparr>gp_lat = Fin la, gp_lng = Fin lo\<rparr> \<lparr>gp_lat = Fin la, gp_lng = Fin lo\<rparr> 3 =
     [\<lparr>gp_lat = Fin la, gp_lng = Fin lo\<rparr>, \<lparr>gp_lat = NaN, gp_lng = NaN\<rparr>,
      \<lparr>gp_lat = Fin la, gp_lng = Fin lo\<rparr>]"
  by (simp add: generatePathPoints_def Let_def Math_PI_def generatePathPoints_loop_three)

subsection \<open>The bearings of a coverage polygon\<close>

lemma upt_shift_map: "map f [0..<Suc n] = f 0 # map (\<lambda>k. f (Suc k)) [0..<n]"
  by (simp only: upt_conv_Cons [of 0 "Suc n"] map_Suc_upt [symmetric]) (simp add: comp_def)

text \<open>
  A positive finite step \<open>r\<close> ends the loop after \<open>\<lceil>(360 - a) / r\<rceil>\<close> iterations from the
  angle \<open>a\<close>, and pushes the angles \<open>a, a + r, a + 2 r, \<dots>\<close>
\<close>

lemma angles_loop_eq:
  assumes r: "0 < r"
  shows "nat \<lceil>(360 - a) / r\<rceil> = n \<Longrightarrow>
         angles_loop (Fin r) (Fin a) acc = Some (acc @ map (\<lambda>k. Fin (a + r * real k)) [0..<n])"
proof (induction n arbitrary: a acc)
  case 0
  then have "(360 - a) / r \<le> 0" by simp
  with r have "\<not> a < 360" by (simp add: divide_le_0_iff)
  then show ?case
    by (subst angles_loop.simps) simp
next
  case (Suc n)
  then have "0 < \<lceil>(360 - a) / r\<rceil>" by linarith
  then have "0 < (360 - a) / r" by (simp add: ceiling_less_iff[symmetric] less_ceiling_iff)
  with r have a: "a < 360" by (simp add: zero_less_divide_iff)
  have "(360 - (a + r)) / r = (360 - a) / r - 1"
    using r by (simp add: field_simps)
  then have "nat \<lceil>(360 - (a + r)) / r\<rceil> = n"
    using Suc.prems by simp
  from Suc.IH [OF this, of "acc @ [Fin a]"]
  have ih: "angles_loop (Fin r) (Fin (a + r)) (acc @ [Fin a]) =
        Some (acc @ Fin a # map (\<lambda>k. Fin (a + r + r * real k)) [0..<n])"
    by simp
  have shift: "map (\<lambda>k. Fin (a + r * real k)) [0..<Suc n] =
        Fin a # map (\<lambda>k. Fin (a + r + r * real k)) [0..<n]"
    by (subst upt_shift_map) (simp add: algebra_simps)
  have "angles_loop (Fin r) (Fin (a + r)) (acc @ [Fin a]) =
        Some (acc @ map (\<lambda>k. Fin (a + r * real k)) [0..<Suc n])"
    unfolding shift by (rule ih)
  with a show ?case
    by (subst angles_loop.simps) simp
qed

lemma angles_loop_length:
  "0 < r \<Longrightarrow> map_option length (angles_loop (Fin r) (Fin 0) []) = Some (nat \<lceil>360 / r\<rceil>)"
  using angles_loop_eq [of r 0 "nat \<lceil>360 / r\<rceil>" "[]"] by simp

lemma coverageAngles_15: "map_option length (coverageAngles (Fin 15)) = Some 24"
  using angles_loop_length [of 15] by (simp add: coverageAngles_def)

lemma coverageAngles_10: "map_option length (coverageAngles (Fin 10)) = Some 36"
  using angles_loop_length [of 10] by (simp add: coverageAngles_def)

subsection \<open>Ray marching ends within the range\<close>




subsection \<open>The shipped generators do not load\<close>

text \<open>
  Both versions of \<open>generateCoveragePolygon\<close> declare \<open>maxRange\<close> as a parameter and again
  with \<open>const\<close> in the body: every request ends in the early \<open>SyntaxError\<close>.
\<close>

lemma generateCoveragePolygon_SyntaxError:
  "generateCoveragePolygon api lat lng powerW resolution maxRange = Inl SyntaxError"
  by (simp add: generateCoveragePolygon_def redeclaresParameter_def
      generateCoveragePolygon_parameters_def generateCoveragePolygon_declaredNames_def)


subsection \<open>Batches, polygon points and the fallback circle\<close>













subsection \<open>The points of the polygon\<close>





subsection \<open>The estimated radius exceeds the range\<close>






subsection \<open>The number of bearings\<close>






end
